theory Spec2Isabelle
  imports Complex_Main
begin

section \<open>slate-sync: the deploy coalescer and the theme-id lookup\<close>

text \<open>
  A shallow embedding of \<^verbatim>\<open>packages/slate-sync/index.js\<close>. The module keeps two
  globals, \<^verbatim>\<open>deploying\<close> and \<^verbatim>\<open>filesToDeploy\<close>, and runs on one thread: an
  \<^verbatim>\<open>async\<close> function runs until its next \<^verbatim>\<open>await\<close>, and goes on when the promise
  it waits for settles. The embedding therefore splits every \<^verbatim>\<open>async\<close> function at its
  \<^verbatim>\<open>await\<close>s, keeps the module's globals and the suspended activations of
  \<^verbatim>\<open>deploy\<close> in a record, and moves it by events: a call of an exported function,
  or the settling of a promise of the external executor (themekit).
  \<^verbatim>\<open>process.exit(1)\<close> is the left injection of a sum; console output other than the
  errors logged by the \<^verbatim>\<open>catch\<close> blocks is left out.
\<close>

subsection \<open>Values and errors of the runtime\<close>

text \<open>
  What \<^verbatim>\<open>JSON.parse\<close> yields. An object is the list of its own properties. Numbers
  are the finite doubles, read as reals; the code only passes them on or asks whether they
  are truthy.
\<close>

datatype json =
    JNull
  | JBool bool
  | JNum real
  | JStr string
  | JArr "json list"
  | JObj "(string \<times> json) list"

text \<open>
  A template literal is the list of its pieces. \<^verbatim>\<open>JSON.stringify(v, null, '\t')\<close> and the
  source text that a function turns into inside a template belong to the runtime and stay
  uninterpreted: \<open>Stringified v\<close> and \<open>Function_text f\<close> stand for those texts.
\<close>

datatype piece =
    Text string
  | Stringified json
  | Function_text string

type_synonym template = "piece list"

text \<open>
  The exceptions: \<^verbatim>\<open>new Error(message)\<close> of the module itself, and the runtime's
  \<^verbatim>\<open>TypeError\<close> (a property read on \<^verbatim>\<open>null\<close>) and \<^verbatim>\<open>SyntaxError\<close>
  (\<^verbatim>\<open>JSON.parse\<close>).
\<close>

datatype error =
    Error template
  | TypeError
  | SyntaxError

text \<open>
  The property reads of the module, \<^verbatim>\<open>.errors\<close>, \<^verbatim>\<open>.themes\<close>, \<^verbatim>\<open>.role\<close> and
  \<^verbatim>\<open>.id\<close>: \<open>None\<close> is \<^verbatim>\<open>undefined\<close>. None of these names is inherited from a
  prototype, so a number, string, boolean or array answers \<^verbatim>\<open>undefined\<close>; reading a
  property of \<^verbatim>\<open>null\<close> throws.
\<close>

fun get_prop :: "json \<Rightarrow> string \<Rightarrow> error + json option" where
  "get_prop JNull k = Inl TypeError"
| "get_prop (JObj kvs) k = Inr (map_of kvs k)"
| "get_prop v k = Inr None"

text \<open>Truthiness, as \<^verbatim>\<open>if (x)\<close> and \<^verbatim>\<open>!x\<close> read a value.\<close>

fun truthy :: "json option \<Rightarrow> bool" where
  "truthy None = False"
| "truthy (Some JNull) = False"
| "truthy (Some (JBool b)) = b"
| "truthy (Some (JNum n)) = (n \<noteq> 0)"
| "truthy (Some (JStr s)) = (s \<noteq> [])"
| "truthy (Some (JArr vs)) = True"
| "truthy (Some (JObj kvs)) = True"

text \<open>\<^verbatim>\<open>Array.isArray\<close>.\<close>

fun isArray :: "json option \<Rightarrow> bool" where
  "isArray (Some (JArr vs)) = True"
| "isArray v = False"

text \<open>
  \<^verbatim>\<open>[...new Set(xs)]\<close>: a \<^verbatim>\<open>Set\<close> keeps the first occurrence of each element, in
  insertion order.
\<close>

fun Set_add :: "'a list \<Rightarrow> 'a list \<Rightarrow> 'a list" where
  "Set_add seen [] = seen"
| "Set_add seen (x # xs) = Set_add (if x \<in> set seen then seen else seen @ [x]) xs"

definition new_Set :: "'a list \<Rightarrow> 'a list" where
  "new_Set xs = Set_add [] xs"

text \<open>\<^verbatim>\<open>s.split(c)\<close> for a one-character separator.\<close>

fun split :: "char \<Rightarrow> string \<Rightarrow> string list" where
  "split c [] = [[]]"
| "split c (x # xs) =
     (if x = c then [] # split c xs
      else (case split c xs of
              [] \<Rightarrow> [[x]]
            | w # ws \<Rightarrow> (x # w) # ws))"

subsection \<open>The environment provider and the executor\<close>

text \<open>
  The answers of \<^verbatim>\<open>@shopify/slate-env\<close> and \<^verbatim>\<open>@shopify/slate-config\<close>, which are
  not part of this module: the result of \<^verbatim>\<open>validate()\<close>, the accessors the module
  calls, and \<^verbatim>\<open>config.get('paths.theme.dist')\<close>. An optional value is \<open>None\<close> when the
  accessor answers \<^verbatim>\<open>undefined\<close>.
\<close>

record env =
  isValid :: bool
  validate_errors :: "string list"
  getEnvNameValue :: string
  getPasswordValue :: string
  getThemeIdValue :: string
  getStoreValue :: string
  getTimeoutValue :: "string option"
  getIgnoreFilesValue :: "string option"
  paths_theme_dist :: string

text \<open>A string or \<^verbatim>\<open>undefined\<close> is truthy when it is a non-empty string.\<close>

fun truthy_string :: "string option \<Rightarrow> bool" where
  "truthy_string None = False"
| "truthy_string (Some s) = (s \<noteq> [])"

datatype flag =
    Str string
  | Strs "string list"
  | Bool bool

type_synonym flags = "(string \<times> flag) list"

text \<open>One call \<^verbatim>\<open>themekit.command(command, flags, {cwd})\<close>.\<close>

record invocation =
  command :: string
  flags :: flags
  cwd :: string

text \<open>
  \<^verbatim>\<open>_validateEnvValues\<close> (lines 28-43): \<^verbatim>\<open>process.exit(1)\<close> when the environment is
  invalid.
\<close>

definition validateEnvValues :: "env \<Rightarrow> nat + unit" where
  "validateEnvValues e = (if \<not> isValid e then Inl 1 else Inr ())"

text \<open>\<^verbatim>\<open>_generateConfigFlags\<close> (lines 45-64).\<close>

definition generateConfigFlags :: "env \<Rightarrow> nat + flags" where
  "generateConfigFlags e =
     (case validateEnvValues e of
        Inl status \<Rightarrow> Inl status
      | Inr u \<Rightarrow>
          Inr ([(''password'', Str (getPasswordValue e)),
                (''themeid'', Str (getThemeIdValue e)),
                (''store'', Str (getStoreValue e)),
                (''env'', Str (getEnvNameValue e))]
               @ (if truthy_string (getTimeoutValue e)
                  then [(''timeout'', Str (the (getTimeoutValue e)))] else [])
               @ (if truthy_string (getIgnoreFilesValue e)
                  then [(''ignoredFiles'', Strs (split CHR '':'' (the (getIgnoreFilesValue e))))]
                  else [])))"

subsection \<open>The state of the module\<close>

datatype val =
    Undefined
  | Fn string

text \<open>
  An activation of \<^verbatim>\<open>deploy\<close> waits for the executor's \<^verbatim>\<open>configure\<close> promise, then
  for its \<^verbatim>\<open>deploy\<close> promise, and then has returned: its own promise is fulfilled with
  the value returned, or rejected with the exception thrown.
\<close>

datatype progress =
    Configure
  | Transfer
  | Returned val
  | Threw error

record activation =
  cmd :: string
  files :: "string list"
  awaiting :: progress

text \<open>
  The promise a call hands back: already settled, or the promise of the \<open>k\<close>-th
  activation of \<^verbatim>\<open>deploy\<close>.
\<close>

datatype promise =
    Resolved val
  | Rejected error
  | Deploy_promise nat

text \<open>
  The globals \<^verbatim>\<open>deploying\<close> and \<^verbatim>\<open>filesToDeploy\<close> (lines 11-12); the activations of
  \<^verbatim>\<open>deploy\<close> in the order they began; what the outside saw: the executor's calls,
  the errors logged by \<^verbatim>\<open>console.error\<close>, and the promises returned to the callers.
\<close>

record world =
  deploying :: bool
  filesToDeploy :: "string list"
  deploys :: "activation list"
  themekit :: "invocation list"
  console_error :: "string list"
  returned :: "promise list"

definition start :: world where
  "start = \<lparr>deploying = False, filesToDeploy = [], deploys = [], themekit = [],
            console_error = [], returned = []\<rparr>"

text \<open>
  The \<^verbatim>\<open>catch\<close> blocks (lines 107-109, 136-138): a rejection of the executor's promise,
  \<open>Some reason\<close>, is logged and dropped.
\<close>

definition catch_error :: "string option \<Rightarrow> world \<Rightarrow> world" where
  "catch_error settled w =
     (case settled of
        None \<Rightarrow> w
      | Some reason \<Rightarrow> w\<lparr>console_error := console_error w @ [reason]\<rparr>)"

text \<open>
  \<^verbatim>\<open>promiseThemekitConfig\<close> (lines 96-110) up to its \<^verbatim>\<open>await\<close>: the flags, then the
  executor's \<^verbatim>\<open>configure\<close>.
\<close>

definition promiseThemekitConfig :: "env \<Rightarrow> world \<Rightarrow> nat + world" where
  "promiseThemekitConfig e w =
     (case generateConfigFlags e of
        Inl status \<Rightarrow> Inl status
      | Inr configFlags \<Rightarrow>
          Inr (w\<lparr>themekit := themekit w @
                 [\<lparr>command = ''configure'', flags = configFlags,
                   cwd = paths_theme_dist e\<rparr>]\<rparr>))"

text \<open>
  \<^verbatim>\<open>promiseThemekitDeploy\<close> (lines 112-139) up to its \<^verbatim>\<open>await\<close>. An array is truthy,
  also the empty one, so \<^verbatim>\<open>files\<close> is always set.
\<close>

definition promiseThemekitDeploy :: "env \<Rightarrow> string \<Rightarrow> string list \<Rightarrow> world \<Rightarrow> nat + world" where
  "promiseThemekitDeploy e c fs w =
     (case generateConfigFlags e of
        Inl status \<Rightarrow> Inl status
      | Inr configFlags \<Rightarrow>
          Inr (w\<lparr>themekit := themekit w @
                 [\<lparr>command = ''deploy'',
                   flags = configFlags
                     @ [(''files'', Strs fs)]
                     @ (if c = ''upload'' then [(''noDelete'', Bool True)] else [])
                     @ [(''allow-live'', Bool True)],
                   cwd = paths_theme_dist e\<rparr>]\<rparr>))"

text \<open>
  \<^verbatim>\<open>deploy\<close> (lines 73-94) from its call to the first \<^verbatim>\<open>await\<close>: the check of
  \<^verbatim>\<open>cmd\<close>, whose exception rejects the promise of the \<^verbatim>\<open>async\<close> function,
  \<^verbatim>\<open>deploying = true\<close>, and the call of \<^verbatim>\<open>promiseThemekitConfig\<close>.
\<close>

definition deploy :: "env \<Rightarrow> string \<Rightarrow> string list \<Rightarrow> world \<Rightarrow> nat + promise \<times> world" where
  \<open>deploy e c fs w =
     (if c \<noteq> ''upload'' \<and> c \<noteq> ''replace''
      then Inr (Rejected (Error
             [Text ''shopify-deploy.deploy() first argument must be either "upload", "replace"'']),
             w)
      else (case promiseThemekitConfig e (w\<lparr>deploying := True\<rparr>) of
              Inl status \<Rightarrow> Inl status
            | Inr w' \<Rightarrow>
                Inr (Deploy_promise (length (deploys w')),
                     w'\<lparr>deploys := deploys w' @
                          [\<lparr>cmd = c, files = fs, awaiting = Configure\<rparr>]\<rparr>)))\<close>

text \<open>
  \<^verbatim>\<open>deploy\<close> between its two \<^verbatim>\<open>await\<close>s (lines 85-86): \<^verbatim>\<open>promiseThemekitConfig\<close>
  catches a rejection and returns, and \<^verbatim>\<open>promiseThemekitDeploy\<close> is called. Both
  callees catch what the executor throws and \<^verbatim>\<open>_generateConfigFlags\<close> exits or
  returns, so nothing reaches the \<^verbatim>\<open>catch\<close> of \<^verbatim>\<open>deploy\<close> itself (lines 87-89).
\<close>

definition deploy_configured :: "env \<Rightarrow> nat \<Rightarrow> string option \<Rightarrow> world \<Rightarrow> nat + world" where
  "deploy_configured e k settled w =
     (let d = deploys w ! k in
      case promiseThemekitDeploy e (cmd d) (files d) (catch_error settled w) of
        Inl status \<Rightarrow> Inl status
      | Inr w' \<Rightarrow> Inr (w'\<lparr>deploys := (deploys w')[k := d\<lparr>awaiting := Transfer\<rparr>]\<rparr>))"

text \<open>
  \<^verbatim>\<open>deploy\<close> after its second \<^verbatim>\<open>await\<close> (lines 86-93): \<^verbatim>\<open>promiseThemekitDeploy\<close>
  catches a rejection and returns, then \<^verbatim>\<open>deploying = false\<close> and
  \<^verbatim>\<open>return maybeDeploy\<close>: the function itself, which is not called.
\<close>

definition deploy_transferred :: "nat \<Rightarrow> string option \<Rightarrow> world \<Rightarrow> world" where
  "deploy_transferred k settled w =
     (let d = deploys w ! k; w' = catch_error settled w in
      w'\<lparr>deploying := False,
         deploys := (deploys w')[k := d\<lparr>awaiting := Returned (Fn ''maybeDeploy'')\<rparr>]\<rparr>)"

text \<open>\<^verbatim>\<open>maybeDeploy\<close> (lines 14-26).\<close>

definition maybeDeploy :: "env \<Rightarrow> world \<Rightarrow> nat + promise \<times> world" where
  "maybeDeploy e w =
     (if deploying w
      then Inr (Rejected (Error [Text ''Deploy already in progress.'']), w)
      else if filesToDeploy w \<noteq> []
      then deploy e ''upload'' (filesToDeploy w) (w\<lparr>filesToDeploy := []\<rparr>)
      else Inr (Resolved Undefined, w))"

text \<open>The exported \<^verbatim>\<open>sync\<close>, \<^verbatim>\<open>replace\<close> and \<^verbatim>\<open>upload\<close> (lines 218-234).\<close>

definition sync :: "env \<Rightarrow> string list \<Rightarrow> world \<Rightarrow> nat + promise \<times> world" where
  "sync e fs w =
     (if fs = []
      then Inr (Rejected (Error [Text ''No files to deploy.'']), w)
      else maybeDeploy e (w\<lparr>filesToDeploy := new_Set (filesToDeploy w @ fs)\<rparr>))"

definition replace :: "env \<Rightarrow> world \<Rightarrow> nat + promise \<times> world" where
  "replace e w = deploy e ''replace'' [] w"

definition upload :: "env \<Rightarrow> world \<Rightarrow> nat + promise \<times> world" where
  "upload e w = deploy e ''upload'' [] w"

subsection \<open>Events\<close>

text \<open>
  A caller calls an exported function, or the promise that the \<open>k\<close>-th activation of
  \<^verbatim>\<open>deploy\<close> waits for settles: fulfilled (\<open>None\<close>) or rejected with a reason.
\<close>

datatype event =
    Sync "string list"
  | Replace
  | Upload
  | Settles nat "string option"

definition called :: "nat + promise \<times> world \<Rightarrow> nat + world" where
  "called r =
     (case r of
        Inl status \<Rightarrow> Inl status
      | Inr (p, w) \<Rightarrow> Inr (w\<lparr>returned := returned w @ [p]\<rparr>))"

definition settles :: "env \<Rightarrow> nat \<Rightarrow> string option \<Rightarrow> world \<Rightarrow> nat + world" where
  "settles e k settled w =
     (if k < length (deploys w)
      then (case awaiting (deploys w ! k) of
              Configure \<Rightarrow> deploy_configured e k settled w
            | Transfer \<Rightarrow> Inr (deploy_transferred k settled w)
            | Returned v \<Rightarrow> Inr w
            | Threw x \<Rightarrow> Inr w)
      else Inr w)"

fun step :: "env \<Rightarrow> world \<Rightarrow> event \<Rightarrow> nat + world" where
  "step e w (Sync fs) = called (sync e fs w)"
| "step e w Replace = called (replace e w)"
| "step e w Upload = called (upload e w)"
| "step e w (Settles k settled) = settles e k settled w"

fun run :: "env \<Rightarrow> world \<Rightarrow> event list \<Rightarrow> nat + world" where
  "run e w [] = Inr w"
| "run e w (ev # evs) =
     (case step e w ev of
        Inl status \<Rightarrow> Inl status
      | Inr w' \<Rightarrow> run e w' evs)"

text \<open>The activations of \<^verbatim>\<open>deploy\<close> that have begun and not returned.\<close>

definition in_flight :: "world \<Rightarrow> activation list" where
  "in_flight w = filter (\<lambda>d. awaiting d = Configure \<or> awaiting d = Transfer) (deploys w)"

text \<open>
  The meaning of the flag: \<^verbatim>\<open>deploying\<close> is true when one activation is in flight,
  false when none is.
\<close>

definition exclusive :: "world \<Rightarrow> bool" where
  "exclusive w = (length (in_flight w) = (if deploying w then 1 else 0))"

text \<open>The events that reach \<^verbatim>\<open>deploy\<close> through \<^verbatim>\<open>maybeDeploy\<close> or not at all.\<close>

fun is_sync_or_settles :: "event \<Rightarrow> bool" where
  "is_sync_or_settles Replace = False"
| "is_sync_or_settles Upload = False"
| "is_sync_or_settles ev = True"

text \<open>The \<^verbatim>\<open>files\<close> flags of the executor's \<^verbatim>\<open>deploy\<close> calls, in order.\<close>

definition transferred :: "world \<Rightarrow> string list list" where
  "transferred w =
     map (\<lambda>i. case map_of (flags i) ''files'' of Some (Strs fs) \<Rightarrow> fs | _ \<Rightarrow> [])
       (filter (\<lambda>i. command i = ''deploy'') (themekit w))"

subsection \<open>The lookup of the main theme\<close>

text \<open>The options of \<^verbatim>\<open>https.get\<close> (lines 152-160).\<close>

record request =
  hostname :: string
  path :: string
  auth :: template
  agent :: bool
  headers :: "(string \<times> string) list"

text \<open>
  \<^verbatim>\<open>auth\<close> is the template \<^verbatim>\<open>`:${slateEnv.getPasswordValue}`\<close>: the accessor is not
  called, so the template holds the text of the function.
\<close>

definition fetch_request :: "env \<Rightarrow> request" where
  "fetch_request e =
     \<lparr>hostname = getStoreValue e,
      path = ''/admin/themes.json'',
      auth = [Text '':'', Function_text ''slateEnv.getPasswordValue''],
      agent = False,
      headers = [(''X-Shopify-Access-Token'', getPasswordValue e)]\<rparr>"

text \<open>
  What the callback of the response's \<^verbatim>\<open>end\<close> does to the promise: it calls
  \<^verbatim>\<open>resolve\<close>, it calls \<^verbatim>\<open>reject\<close>, or an exception leaves the callback, and
  the promise stays pending.
\<close>

datatype outcome =
    Resolve "json option"
  | Reject error
  | Uncaught error

text \<open>\<^verbatim>\<open>parsed.themes.find((t) => t.role === 'main')\<close> (line 195).\<close>

fun find_main :: "json list \<Rightarrow> error + json option" where
  "find_main [] = Inr None"
| "find_main (t # ts) =
     (case get_prop t ''role'' of
        Inl x \<Rightarrow> Inl x
      | Inr role \<Rightarrow> if role = Some (JStr ''main'') then Inr (Some t) else find_main ts)"

text \<open>The callback of \<^verbatim>\<open>end\<close> after \<^verbatim>\<open>JSON.parse\<close> (lines 169-210).\<close>

definition on_parsed :: "json \<Rightarrow> outcome" where
  "on_parsed parsed =
     (case get_prop parsed ''errors'' of
        Inl x \<Rightarrow> Uncaught x
      | Inr errors \<Rightarrow>
          if truthy errors
          then Reject (Error [Text ''API request to fetch main theme ID failed: \<newline>'',
                              Stringified (the errors)])
          else (case get_prop parsed ''themes'' of
                  Inl x \<Rightarrow> Uncaught x
                | Inr themes \<Rightarrow>
                    if \<not> isArray themes
                    then Reject (Error
                           [Text ''Shopify response for /admin/themes.json is not an array. '',
                            Stringified parsed])
                    else (case find_main (case themes of Some (JArr ts) \<Rightarrow> ts | _ \<Rightarrow> []) of
                            Inl x \<Rightarrow> Uncaught x
                          | Inr None \<Rightarrow>
                              Reject (Error [Text ''No main theme in response. '',
                                             Stringified (the themes)])
                          | Inr (Some mainTheme) \<Rightarrow>
                              (case get_prop mainTheme ''id'' of
                                 Inl x \<Rightarrow> Uncaught x
                               | Inr v \<Rightarrow> Resolve v))))"

text \<open>
  The callback of \<^verbatim>\<open>end\<close> (lines 166-211). \<^verbatim>\<open>JSON.parse\<close> is the runtime's and is a
  parameter: \<open>None\<close> where it throws its \<^verbatim>\<open>SyntaxError\<close>. No \<^verbatim>\<open>try\<close> surrounds the
  call.
\<close>

definition on_end :: "(string \<Rightarrow> json option) \<Rightarrow> string \<Rightarrow> outcome" where
  "on_end JSON_parse body =
     (case JSON_parse body of
        None \<Rightarrow> Uncaught SyntaxError
      | Some parsed \<Rightarrow> on_parsed parsed)"

text \<open>
  \<^verbatim>\<open>fetchMainThemeId\<close> (lines 147-215), for a response that arrives in the given
  chunks: the request sent, and what becomes of the promise.
\<close>

definition fetchMainThemeId ::
    "(string \<Rightarrow> json option) \<Rightarrow> env \<Rightarrow> string list \<Rightarrow> nat + request \<times> outcome" where
  "fetchMainThemeId JSON_parse e chunks =
     (case validateEnvValues e of
        Inl status \<Rightarrow> Inl status
      | Inr u \<Rightarrow> Inr (fetch_request e, on_end JSON_parse (foldl (@) [] chunks)))"

subsection \<open>A sample environment\<close>

text \<open>An environment that validates, for the concrete runs below.\<close>

definition shop :: env where
  "shop = \<lparr>isValid = True, validate_errors = [], getEnvNameValue = ''development'',
           getPasswordValue = ''shppa_0123'', getThemeIdValue = ''42'',
           getStoreValue = ''shop.myshopify.com'', getTimeoutValue = None,
           getIgnoreFilesValue = Some ''config/settings_data.json:locales/*'',
           paths_theme_dist = ''dist''\<rparr>"

section \<open>Properties\<close>

subsection \<open>Auxiliary facts\<close>

lemma generateConfigFlags_valid:
  "isValid e \<Longrightarrow> \<exists>fl. generateConfigFlags e = Inr fl"
  by (simp add: generateConfigFlags_def validateEnvValues_def)

lemma generateConfigFlags_files:
  "generateConfigFlags e = Inr fl \<Longrightarrow> map_of fl ''files'' = None"
  by (auto simp: generateConfigFlags_def validateEnvValues_def split: if_splits)

lemma shop_valid: "isValid shop"
  by (simp add: shop_def)

lemma set_Set_add: "set (Set_add seen xs) = set seen \<union> set xs"
  by (induction xs arbitrary: seen) auto

lemma distinct_Set_add: "distinct seen \<Longrightarrow> distinct (Set_add seen xs)"
  by (induction xs arbitrary: seen) auto

lemma set_new_Set: "set (new_Set xs) = set xs"
  by (simp add: new_Set_def set_Set_add)

lemma distinct_new_Set: "distinct (new_Set xs)"
  by (simp add: new_Set_def distinct_Set_add)

lemma new_Set_empty: "new_Set xs = [] \<longleftrightarrow> xs = []"
  using set_new_Set [of xs] by (metis set_empty)

lemma catch_error_fields [simp]:
  "deploying (catch_error s w) = deploying w"
  "filesToDeploy (catch_error s w) = filesToDeploy w"
  "deploys (catch_error s w) = deploys w"
  "themekit (catch_error s w) = themekit w"
  "returned (catch_error s w) = returned w"
  by (simp_all add: catch_error_def split: option.split)

text \<open>What each piece of \<^verbatim>\<open>deploy\<close> does to the state, in a valid environment.\<close>

lemma deploy_begins:
  assumes "generateConfigFlags e = Inr fl" and "c = ''upload'' \<or> c = ''replace''"
  shows "deploy e c fs w =
     Inr (Deploy_promise (length (deploys w)),
          w\<lparr>deploying := True,
            themekit := themekit w @
              [\<lparr>command = ''configure'', flags = fl, cwd = paths_theme_dist e\<rparr>],
            deploys := deploys w @ [\<lparr>cmd = c, files = fs, awaiting = Configure\<rparr>]\<rparr>)"
  using assms by (auto simp: deploy_def promiseThemekitConfig_def)

lemma settles_Configure:
  assumes "generateConfigFlags e = Inr fl" and "k < length (deploys w)"
    and "awaiting (deploys w ! k) = Configure"
  shows "settles e k settled w =
     Inr ((catch_error settled w)
          \<lparr>themekit := themekit w @
             [\<lparr>command = ''deploy'',
               flags = fl @ [(''files'', Strs (files (deploys w ! k)))]
                 @ (if cmd (deploys w ! k) = ''upload'' then [(''noDelete'', Bool True)] else [])
                 @ [(''allow-live'', Bool True)],
               cwd = paths_theme_dist e\<rparr>],
           deploys := (deploys w)[k := (deploys w ! k)\<lparr>awaiting := Transfer\<rparr>]\<rparr>)"
  using assms
  by (cases settled)
     (simp_all add: settles_def deploy_configured_def promiseThemekitDeploy_def
        catch_error_def Let_def)

lemma settles_Transfer:
  assumes "k < length (deploys w)" and "awaiting (deploys w ! k) = Transfer"
  shows "settles e k settled w =
     Inr ((catch_error settled w)
          \<lparr>deploying := False,
           deploys := (deploys w)
             [k := (deploys w ! k)\<lparr>awaiting := Returned (Fn ''maybeDeploy'')\<rparr>]\<rparr>)"
  using assms
  by (cases settled) (simp_all add: settles_def deploy_transferred_def catch_error_def Let_def)

lemma settles_keeps_pending:
  assumes "settles e k settled w = Inr w'"
  shows "filesToDeploy w' = filesToDeploy w \<and> length (deploys w') = length (deploys w)
         \<and> returned w' = returned w"
  using assms
  by (auto simp: settles_def deploy_configured_def deploy_transferred_def
        promiseThemekitDeploy_def Let_def
      split: if_splits progress.splits sum.splits)

lemma sync_busy:
  "deploying w \<Longrightarrow> fs \<noteq> [] \<Longrightarrow>
   sync e fs w = Inr (Rejected (Error [Text ''Deploy already in progress.'']),
                      w\<lparr>filesToDeploy := new_Set (filesToDeploy w @ fs)\<rparr>)"
  by (simp add: sync_def maybeDeploy_def)

lemma sync_idle:
  assumes "generateConfigFlags e = Inr fl" and "\<not> deploying w" and "fs \<noteq> []"
  shows "sync e fs w =
     Inr (Deploy_promise (length (deploys w)),
          w\<lparr>filesToDeploy := [], deploying := True,
            themekit := themekit w @
              [\<lparr>command = ''configure'', flags = fl, cwd = paths_theme_dist e\<rparr>],
            deploys := deploys w @
              [\<lparr>cmd = ''upload'', files = new_Set (filesToDeploy w @ fs),
                awaiting = Configure\<rparr>]\<rparr>)"
proof -
  have ne: "new_Set (filesToDeploy w @ fs) \<noteq> []"
    using assms(3) by (simp add: new_Set_empty)
  show ?thesis
    using assms ne by (simp add: sync_def maybeDeploy_def deploy_begins [OF assms(1)])
qed

subsection \<open>The deploy coalescer\<close>

text \<open>
  Claim C3. A deploy that has begun (the command is \<^verbatim>\<open>upload\<close> or \<^verbatim>\<open>replace\<close>, the
  environment validates) hands back the promise of its activation; whatever the executor's
  \<^verbatim>\<open>configure\<close> promise and then its \<^verbatim>\<open>deploy\<close> promise settle to, fulfilled or
  rejected with any reason, the activation returns, so its promise is fulfilled and not
  rejected, and \<^verbatim>\<open>deploying\<close> is false again.
\<close>

theorem deploy_swallows_executor_errors:
  assumes "isValid e" and "c = ''upload'' \<or> c = ''replace''"
  shows "\<exists>w1 w2. deploy e c fs w = Inr (Deploy_promise (length (deploys w)), w1)
           \<and> deploying w1
           \<and> awaiting (deploys w1 ! length (deploys w)) = Configure
           \<and> run e w1 [Settles (length (deploys w)) r1,
                        Settles (length (deploys w)) r2] = Inr w2
           \<and> awaiting (deploys w2 ! length (deploys w)) = Returned (Fn ''maybeDeploy'')
           \<and> \<not> deploying w2"
proof -
  let ?k = "length (deploys w)"
  from assms(1) obtain fl where fl: "generateConfigFlags e = Inr fl"
    using generateConfigFlags_valid by blast
  define w1 where "w1 = w\<lparr>deploying := True,
      themekit := themekit w @
        [\<lparr>command = ''configure'', flags = fl, cwd = paths_theme_dist e\<rparr>],
      deploys := deploys w @ [\<lparr>cmd = c, files = fs, awaiting = Configure\<rparr>]\<rparr>"
  have begun: "deploy e c fs w = Inr (Deploy_promise ?k, w1)"
    unfolding w1_def using fl assms(2) by (rule deploy_begins)
  have k1: "?k < length (deploys w1)" and a1: "awaiting (deploys w1 ! ?k) = Configure"
    and busy: "deploying w1"
    by (simp_all add: w1_def)
  obtain w2 where s1: "settles e ?k r1 w1 = Inr w2"
    and k2: "?k < length (deploys w2)" and a2: "awaiting (deploys w2 ! ?k) = Transfer"
    using settles_Configure [OF fl k1 a1, of r1] k1 by simp
  obtain w3 where s2: "settles e ?k r2 w2 = Inr w3"
    and a3: "awaiting (deploys w3 ! ?k) = Returned (Fn ''maybeDeploy'')"
    and idle: "\<not> deploying w3"
    using settles_Transfer [OF k2 a2, of e r2] k2 by simp
  have "run e w1 [Settles ?k r1, Settles ?k r2] = Inr w3"
    using s1 s2 by simp
  with begun busy a1 a3 idle show ?thesis by blast
qed

theorem deploy_swallows_executor_errors_witness:
  "\<exists>w1 w2. deploy shop ''replace'' [] start = Inr (Deploy_promise 0, w1)
     \<and> deploying w1
     \<and> awaiting (deploys w1 ! 0) = Configure
     \<and> run shop w1 [Settles 0 (Some ''configure failed''), Settles 0 (Some ''deploy failed'')]
         = Inr w2
     \<and> awaiting (deploys w2 ! 0) = Returned (Fn ''maybeDeploy'')
     \<and> \<not> deploying w2"
  using deploy_swallows_executor_errors [of shop "''replace''" "[]" start
      "Some ''configure failed''" "Some ''deploy failed''"]
  by (simp add: shop_def start_def)

text \<open>
  Claim C6. In every state where \<^verbatim>\<open>deploying\<close> is true, \<^verbatim>\<open>maybeDeploy\<close> hands back a
  promise rejected with the error "Deploy already in progress." and leaves the whole state,
  \<^verbatim>\<open>filesToDeploy\<close> included, as it was.
\<close>

theorem maybeDeploy_busy:
  "deploying w \<Longrightarrow>
   maybeDeploy e w = Inr (Rejected (Error [Text ''Deploy already in progress.'']), w)"
  by (simp add: maybeDeploy_def)

theorem maybeDeploy_busy_witness:
  "deploying (start\<lparr>deploying := True, filesToDeploy := [''a.liquid'']\<rparr>) \<and>
   maybeDeploy shop (start\<lparr>deploying := True, filesToDeploy := [''a.liquid'']\<rparr>) =
     Inr (Rejected (Error [Text ''Deploy already in progress.'']),
          start\<lparr>deploying := True, filesToDeploy := [''a.liquid'']\<rparr>)"
  using maybeDeploy_busy [of "start\<lparr>deploying := True, filesToDeploy := [''a.liquid'']\<rparr>" shop]
  by simp

text \<open>
  Claim C10. When the executor's \<^verbatim>\<open>configure\<close> promise settles for an activation that
  waits for it, fulfilled or rejected, the next thing that happens in a valid environment is
  the executor's \<^verbatim>\<open>deploy\<close> call with the files of that activation: a rejection is
  logged, and the activation goes on to wait for the transfer.
\<close>

theorem configure_failure_goes_on:
  assumes "isValid e" and "k < length (deploys w)"
    and "awaiting (deploys w ! k) = Configure"
  shows "\<exists>w' fl. step e w (Settles k settled) = Inr w'
           \<and> themekit w' = themekit w @
                [\<lparr>command = ''deploy'', flags = fl, cwd = paths_theme_dist e\<rparr>]
           \<and> map_of fl ''files'' = Some (Strs (files (deploys w ! k)))
           \<and> awaiting (deploys w' ! k) = Transfer
           \<and> console_error w' =
               console_error w @ (case settled of None \<Rightarrow> [] | Some reason \<Rightarrow> [reason])"
proof -
  from assms(1) obtain fl where fl: "generateConfigFlags e = Inr fl"
    using generateConfigFlags_valid by blast
  have nofiles: "map_of fl ''files'' = None"
    using fl by (rule generateConfigFlags_files)
  show ?thesis
    using assms(2) nofiles
    by (simp add: settles_Configure [OF fl assms(2,3)] map_add_def catch_error_def
          split: option.split)
qed

text \<open>
  Claim C10, at a rejected \<^verbatim>\<open>configure\<close>: the transfer is called with the one
  file of the activation.
\<close>

theorem configure_failure_goes_on_witness:
  "\<exists>w' fl. step shop
       (start\<lparr>deploying := True,
              deploys := [\<lparr>cmd = ''upload'', files = [''a.liquid''], awaiting = Configure\<rparr>]\<rparr>)
       (Settles 0 (Some ''configure failed'')) = Inr w'
     \<and> themekit w' = [\<lparr>command = ''deploy'', flags = fl, cwd = ''dist''\<rparr>]
     \<and> map_of fl ''files'' = Some (Strs [''a.liquid''])
     \<and> awaiting (deploys w' ! 0) = Transfer
     \<and> console_error w' = [''configure failed'']"
  using configure_failure_goes_on [of shop 0
      "start\<lparr>deploying := True,
             deploys := [\<lparr>cmd = ''upload'', files = [''a.liquid''], awaiting = Configure\<rparr>]\<rparr>"
      "Some ''configure failed''"]
  by (simp add: shop_def start_def)

lemma deploy_keeps_pending:
  "deploy e c fs w = Inr (p, w') \<Longrightarrow> filesToDeploy w' = filesToDeploy w"
  by (auto simp: deploy_def promiseThemekitConfig_def split: if_splits sum.splits)

lemma only_sync_changes_pending:
  assumes "step e w ev = Inr w'" and "filesToDeploy w' \<noteq> filesToDeploy w"
  shows "\<exists>fs. ev = Sync fs"
proof (cases ev)
  case (Sync fs)
  then show ?thesis by simp
next
  case Replace
  with assms show ?thesis
    by (auto simp: called_def replace_def split: sum.splits dest: deploy_keeps_pending)
next
  case Upload
  with assms show ?thesis
    by (auto simp: called_def upload_def split: sum.splits dest: deploy_keeps_pending)
next
  case (Settles k settled)
  with assms show ?thesis
    using settles_keeps_pending [of e k settled w w'] by simp
qed

text \<open>
  Claim C8. When the executor's \<^verbatim>\<open>deploy\<close> promise settles for an activation that
  waits for it, the activation returns the function \<^verbatim>\<open>maybeDeploy\<close> without calling
  it: \<^verbatim>\<open>deploying\<close> becomes false, \<^verbatim>\<open>filesToDeploy\<close> keeps the files gathered
  meanwhile, no activation is added and the executor is not called. From there only a call
  of \<^verbatim>\<open>sync\<close> changes \<^verbatim>\<open>filesToDeploy\<close>, and such a call (non-empty, valid
  environment) begins the deploy that carries the pending files together with its own.
\<close>

theorem completion_starts_nothing:
  assumes "k < length (deploys w)" and "awaiting (deploys w ! k) = Transfer"
  shows "\<exists>w'. step e w (Settles k settled) = Inr w'
           \<and> \<not> deploying w'
           \<and> awaiting (deploys w' ! k) = Returned (Fn ''maybeDeploy'')
           \<and> filesToDeploy w' = filesToDeploy w
           \<and> length (deploys w') = length (deploys w)
           \<and> themekit w' = themekit w
           \<and> (\<forall>ev w''. step e w' ev = Inr w'' \<and> filesToDeploy w'' \<noteq> filesToDeploy w'
                 \<longrightarrow> (\<exists>fs'. ev = Sync fs'))
           \<and> (isValid e \<longrightarrow> fs \<noteq> [] \<longrightarrow>
                (\<exists>w''. step e w' (Sync fs) = Inr w''
                   \<and> filesToDeploy w'' = []
                   \<and> deploys w'' = deploys w' @
                        [\<lparr>cmd = ''upload'', files = new_Set (filesToDeploy w @ fs),
                          awaiting = Configure\<rparr>]))"
proof -
  define w' where "w' = (catch_error settled w)
     \<lparr>deploying := False,
      deploys := (deploys w)[k := (deploys w ! k)\<lparr>awaiting := Returned (Fn ''maybeDeploy'')\<rparr>]\<rparr>"
  have s: "step e w (Settles k settled) = Inr w'"
    unfolding w'_def using settles_Transfer [OF assms] by simp
  have idle: "\<not> deploying w'" and pend: "filesToDeploy w' = filesToDeploy w"
    and len: "length (deploys w') = length (deploys w)" and tk: "themekit w' = themekit w"
    and ret: "awaiting (deploys w' ! k) = Returned (Fn ''maybeDeploy'')"
    using assms(1) by (simp_all add: w'_def)
  have only: "\<forall>ev w''. step e w' ev = Inr w'' \<and> filesToDeploy w'' \<noteq> filesToDeploy w'
                 \<longrightarrow> (\<exists>fs'. ev = Sync fs')"
    using only_sync_changes_pending by blast
  have flush: "\<exists>w''. step e w' (Sync fs) = Inr w''
                   \<and> filesToDeploy w'' = []
                   \<and> deploys w'' = deploys w' @
                        [\<lparr>cmd = ''upload'', files = new_Set (filesToDeploy w @ fs),
                          awaiting = Configure\<rparr>]"
    if "isValid e" and "fs \<noteq> []"
  proof -
    from that(1) obtain fl where fl: "generateConfigFlags e = Inr fl"
      using generateConfigFlags_valid by blast
    show ?thesis
      by (simp add: sync_idle [OF fl idle that(2)] called_def pend)
  qed
  show ?thesis
    by (rule exI [of _ w']) (use s idle ret pend len tk only flush in blast)
qed

text \<open>
  Claim C8, at a state with one file gathered during the transfer: it is still pending when
  the deploy has completed, and the next \<^verbatim>\<open>sync\<close> deploys it.
\<close>

theorem completion_starts_nothing_witness:
  "\<exists>w'. step shop
       (start\<lparr>deploying := True, filesToDeploy := [''b.liquid''],
              deploys := [\<lparr>cmd = ''upload'', files = [''a.liquid''], awaiting = Transfer\<rparr>]\<rparr>)
       (Settles 0 None) = Inr w'
     \<and> \<not> deploying w'
     \<and> awaiting (deploys w' ! 0) = Returned (Fn ''maybeDeploy'')
     \<and> filesToDeploy w' = [''b.liquid'']
     \<and> length (deploys w') = 1
     \<and> themekit w' = []
     \<and> (\<exists>w''. step shop w' (Sync [''b.liquid'', ''c.liquid'']) = Inr w''
           \<and> filesToDeploy w'' = []
           \<and> deploys w'' = deploys w' @
                [\<lparr>cmd = ''upload'', files = [''b.liquid'', ''c.liquid''], awaiting = Configure\<rparr>])"
proof -
  let ?w = "start\<lparr>deploying := True, filesToDeploy := [''b.liquid''],
             deploys := [\<lparr>cmd = ''upload'', files = [''a.liquid''], awaiting = Transfer\<rparr>]\<rparr>"
  have h1: "0 < length (deploys ?w)" and h2: "awaiting (deploys ?w ! 0) = Transfer"
    by simp_all
  have n: "new_Set (filesToDeploy ?w @ [''b.liquid'', ''c.liquid'']) = [''b.liquid'', ''c.liquid'']"
    by (simp add: new_Set_def)
  from completion_starts_nothing [OF h1 h2, of shop None "[''b.liquid'', ''c.liquid'']"]
  obtain w' where w': "step shop ?w (Settles 0 None) = Inr w'" "\<not> deploying w'"
      "awaiting (deploys w' ! 0) = Returned (Fn ''maybeDeploy'')"
      "filesToDeploy w' = filesToDeploy ?w" "length (deploys w') = length (deploys ?w)"
      "themekit w' = themekit ?w"
      "isValid shop \<longrightarrow> [''b.liquid'', ''c.liquid''] \<noteq> [] \<longrightarrow>
                (\<exists>w''. step shop w' (Sync [''b.liquid'', ''c.liquid'']) = Inr w''
                   \<and> filesToDeploy w'' = []
                   \<and> deploys w'' = deploys w' @
                        [\<lparr>cmd = ''upload'',
                          files = new_Set (filesToDeploy ?w @ [''b.liquid'', ''c.liquid'']),
                          awaiting = Configure\<rparr>])"
    by blast
  show ?thesis
    by (rule exI [of _ w']) (use w' n shop_valid in \<open>simp add: start_def\<close>)
qed

text \<open>
  Claim C2, as stated, fails. The first \<^verbatim>\<open>sync\<close> finds the module idle and begins its
  deploy at once, with \<^verbatim>\<open>a.liquid\<close> alone. When the second \<^verbatim>\<open>sync\<close> comes while
  that deploy is in flight, the executor's only \<^verbatim>\<open>deploy\<close> call carries
  \<^verbatim>\<open>a.liquid\<close>; when it comes after the deploy has completed, there are two calls. In
  neither order is there exactly one call carrying the set of both files.
\<close>

theorem second_sync_is_not_merged:
  "map_sum id (map set \<circ> transferred)
     (run shop start [Sync [''a.liquid''], Sync [''a.liquid'', ''b.liquid''],
                      Settles 0 None, Settles 0 None])
     \<noteq> Inr [{''a.liquid'', ''b.liquid''}]
   \<and> map_sum id (map set \<circ> transferred)
     (run shop start [Sync [''a.liquid''], Settles 0 None, Settles 0 None,
                      Sync [''a.liquid'', ''b.liquid''], Settles 1 None, Settles 1 None])
     \<noteq> Inr [{''a.liquid'', ''b.liquid''}]"
  by code_simp

text \<open>
  Calls of \<^verbatim>\<open>sync\<close> repeated while a deploy is in flight: each is rejected, and the
  pending files stay the set of the files given.
\<close>

lemma Set_add_append: "Set_add seen (xs @ ys) = Set_add (Set_add seen xs) ys"
  by (induction xs arbitrary: seen) auto

lemma Set_add_distinct: "distinct (seen @ xs) \<Longrightarrow> Set_add seen xs = seen @ xs"
  by (induction xs arbitrary: seen) auto

lemma Set_add_absorb: "set xs \<subseteq> set seen \<Longrightarrow> Set_add seen xs = seen"
  by (induction xs arbitrary: seen) auto

lemma new_Set_again: "new_Set (new_Set fs @ fs) = new_Set fs"
proof -
  have "Set_add [] (new_Set fs) = new_Set fs"
    using Set_add_distinct [of "[]" "new_Set fs"] by (simp add: distinct_new_Set)
  moreover have "Set_add (new_Set fs) fs = new_Set fs"
    by (rule Set_add_absorb) (simp add: set_new_Set)
  ultimately show ?thesis
    by (simp add: new_Set_def [of "new_Set fs @ fs"] Set_add_append)
qed

lemma run_append:
  "run e w (xs @ ys) = (case run e w xs of Inl status \<Rightarrow> Inl status | Inr w' \<Rightarrow> run e w' ys)"
  by (induction xs arbitrary: w) (auto split: sum.splits)

lemma syncs_rejected_while_busy:
  assumes "deploying w" and "fs \<noteq> []"
    and "filesToDeploy w = [] \<or> filesToDeploy w = new_Set fs"
  shows "run e w (replicate n (Sync fs)) =
     Inr (w\<lparr>filesToDeploy := (if n = 0 then filesToDeploy w else new_Set fs),
            returned := returned w @
              replicate n (Rejected (Error [Text ''Deploy already in progress.'']))\<rparr>)"
  using assms
proof (induction n arbitrary: w)
  case 0
  then show ?case by simp
next
  case (Suc n)
  define w1 where "w1 = w\<lparr>filesToDeploy := new_Set fs,
      returned := returned w @ [Rejected (Error [Text ''Deploy already in progress.''])]\<rparr>"
  have merged: "new_Set (filesToDeploy w @ fs) = new_Set fs"
    using Suc.prems(3) by (auto simp: new_Set_again)
  have s: "step e w (Sync fs) = Inr w1"
    using sync_busy [OF Suc.prems(1,2), of e] merged by (simp add: called_def w1_def)
  have "run e w1 (replicate n (Sync fs)) =
     Inr (w1\<lparr>filesToDeploy := (if n = 0 then filesToDeploy w1 else new_Set fs),
            returned := returned w1 @
              replicate n (Rejected (Error [Text ''Deploy already in progress.'']))\<rparr>)"
    using Suc.prems(1,2) by (intro Suc.IH) (simp_all add: w1_def)
  then show ?case
    using s by (simp add: w1_def replicate_app_Cons_same)
qed


text \<open>
  Claim C2, amended. From the idle state with nothing pending, in a valid environment,
  \<^verbatim>\<open>sync(["a.liquid"])\<close> begins a deploy of \<^verbatim>\<open>a.liquid\<close>. Every call
  \<^verbatim>\<open>sync(["a.liquid", "b.liquid"])\<close> made while that deploy is in flight, \<open>n\<close> times
  before the executor's \<^verbatim>\<open>configure\<close> promise settles and \<open>m\<close> times during the
  transfer, at least once in all, is rejected with "Deploy already in progress." and begins
  no deploy; its files are merged into \<^verbatim>\<open>filesToDeploy\<close>, which holds
  \<^verbatim>\<open>a.liquid, b.liquid\<close> once each however often the call is repeated. However the
  executor's two promises settle, when the deploy has completed there is one activation of
  \<^verbatim>\<open>deploy\<close> and one \<^verbatim>\<open>deploy\<close> call of the executor, and its file list is
  \<^verbatim>\<open>a.liquid\<close>.
\<close>

theorem syncs_while_in_flight:
  assumes "isValid e" and "0 < n + m"
  shows "\<exists>w. run e start
               ([Sync [''a.liquid'']]
                @ replicate n (Sync [''a.liquid'', ''b.liquid''])
                @ [Settles 0 r1]
                @ replicate m (Sync [''a.liquid'', ''b.liquid''])
                @ [Settles 0 r2]) = Inr w
           \<and> transferred w = [[''a.liquid'']]
           \<and> map files (deploys w) = [[''a.liquid'']]
           \<and> returned w = Deploy_promise 0 #
                replicate (n + m) (Rejected (Error [Text ''Deploy already in progress.'']))
           \<and> filesToDeploy w = [''a.liquid'', ''b.liquid'']
           \<and> \<not> deploying w"
proof -
  let ?ab = "[''a.liquid'', ''b.liquid'']"
  let ?rej = "Rejected (Error [Text ''Deploy already in progress.''])"
  from assms(1) obtain fl where fl: "generateConfigFlags e = Inr fl"
    using generateConfigFlags_valid by blast
  have nofiles: "map_of fl ''files'' = None"
    using fl by (rule generateConfigFlags_files)
  have ab: "new_Set ?ab = ?ab"
    by (simp add: new_Set_def)
  define w1 where "w1 = start\<lparr>deploying := True,
      themekit := [\<lparr>command = ''configure'', flags = fl, cwd = paths_theme_dist e\<rparr>],
      deploys := [\<lparr>cmd = ''upload'', files = [''a.liquid''], awaiting = Configure\<rparr>],
      returned := [Deploy_promise 0]\<rparr>"
  have s1: "run e start [Sync [''a.liquid'']] = Inr w1"
    using sync_idle [OF fl, of start "[''a.liquid'']"]
    by (simp add: start_def w1_def called_def new_Set_def)
  define w2 where "w2 = w1\<lparr>filesToDeploy := (if n = 0 then [] else ?ab),
      returned := Deploy_promise 0 # replicate n ?rej\<rparr>"
  have s2: "run e w1 (replicate n (Sync ?ab)) = Inr w2"
    using syncs_rejected_while_busy [of w1 ?ab e n]
    by (simp add: ab w1_def w2_def start_def)
  define w3 where "w3 = (catch_error r1 w2)
      \<lparr>themekit := themekit w2 @
         [\<lparr>command = ''deploy'',
           flags = fl @ [(''files'', Strs [''a.liquid'']), (''noDelete'', Bool True),
                         (''allow-live'', Bool True)],
           cwd = paths_theme_dist e\<rparr>],
       deploys := [\<lparr>cmd = ''upload'', files = [''a.liquid''], awaiting = Transfer\<rparr>]\<rparr>"
  have s3: "run e w2 [Settles 0 r1] = Inr w3"
    using settles_Configure [OF fl, of 0 w2 r1]
    by (simp add: w1_def w2_def w3_def start_def)
  define w4 where "w4 = w3\<lparr>filesToDeploy := (if n + m = 0 then [] else ?ab),
      returned := Deploy_promise 0 # replicate (n + m) ?rej\<rparr>"
  have busy3: "deploying w3" and pend3: "filesToDeploy w3 = (if n = 0 then [] else ?ab)"
    and ret3: "returned w3 = Deploy_promise 0 # replicate n ?rej"
    by (simp_all add: w3_def w2_def w1_def)
  have s4: "run e w3 (replicate m (Sync ?ab)) = Inr w4"
    using syncs_rejected_while_busy [of w3 ?ab e m] busy3 pend3 ret3
    by (simp add: ab w4_def replicate_add)
  define w5 where "w5 = (catch_error r2 w4)
      \<lparr>deploying := False,
       deploys := [\<lparr>cmd = ''upload'', files = [''a.liquid''],
                    awaiting = Returned (Fn ''maybeDeploy'')\<rparr>]\<rparr>"
  have s5: "run e w4 [Settles 0 r2] = Inr w5"
    using settles_Transfer [of 0 w4 e r2]
    by (simp add: w1_def w2_def w3_def w4_def w5_def start_def)
  have r: "run e start
               ([Sync [''a.liquid'']] @ replicate n (Sync ?ab) @ [Settles 0 r1]
                @ replicate m (Sync ?ab) @ [Settles 0 r2]) = Inr w5"
    by (simp only: run_append s1 s2 s3 s4 s5 sum.case)
  have t: "transferred w5 = [[''a.liquid'']]"
    using nofiles
    by (simp add: transferred_def w1_def w2_def w3_def w4_def w5_def start_def map_add_def)
  have f: "map files (deploys w5) = [[''a.liquid'']]"
    by (simp add: w5_def)
  have p: "returned w5 = Deploy_promise 0 # replicate (n + m) ?rej"
    by (simp add: w5_def w4_def)
  have q: "filesToDeploy w5 = ?ab"
    using assms(2) by (simp add: w5_def w4_def)
  have i: "\<not> deploying w5"
    by (simp add: w5_def)
  show ?thesis
    by (rule exI [of _ w5]) (simp only: r t f p q i simp_thms)
qed

text \<open>
  Claim C2, amended, with the second call made once before \<^verbatim>\<open>configure\<close> settles
  and once more during the transfer: both calls are rejected, one deploy of
  \<^verbatim>\<open>a.liquid\<close> has run, and \<^verbatim>\<open>a.liquid, b.liquid\<close> are pending once each.
\<close>

theorem syncs_while_in_flight_witness:
  "isValid shop \<and> (0::nat) < 1 + 1
   \<and> (\<exists>w. run shop start
              [Sync [''a.liquid''], Sync [''a.liquid'', ''b.liquid''], Settles 0 None,
               Sync [''a.liquid'', ''b.liquid''], Settles 0 (Some ''timed out'')] = Inr w
           \<and> transferred w = [[''a.liquid'']]
           \<and> map files (deploys w) = [[''a.liquid'']]
           \<and> returned w = [Deploy_promise 0,
                            Rejected (Error [Text ''Deploy already in progress.'']),
                            Rejected (Error [Text ''Deploy already in progress.''])]
           \<and> filesToDeploy w = [''a.liquid'', ''b.liquid'']
           \<and> \<not> deploying w)"
proof -
  have n: "(0::nat) < 1 + 1"
    by simp
  from syncs_while_in_flight [OF shop_valid n, of None "Some ''timed out''"]
  show ?thesis
    using shop_valid by (simp add: numeral_2_eq_2)
qed

text \<open>
  With \<^verbatim>\<open>sync\<close> as the only way in, the flag keeps its meaning, and at most one
  deploy is in flight.
\<close>

lemma filter_update_same:
  "k < length xs \<Longrightarrow> P y = P (xs ! k) \<Longrightarrow>
   length (filter P (xs[k := y])) = length (filter P xs)"
proof (induction xs arbitrary: k)
  case Nil
  then show ?case by simp
next
  case (Cons x xs)
  then show ?case by (cases k) auto
qed

lemma filter_update_drop:
  "k < length xs \<Longrightarrow> P (xs ! k) \<Longrightarrow> \<not> P y \<Longrightarrow>
   Suc (length (filter P (xs[k := y]))) = length (filter P xs)"
proof (induction xs arbitrary: k)
  case Nil
  then show ?case by simp
next
  case (Cons x xs)
  then show ?case by (cases k) auto
qed

lemma exclusive_sync:
  assumes "exclusive w" and "sync e fs w = Inr (p, w')"
  shows "exclusive w'"
proof (cases "fs = []")
  case True
  with assms show ?thesis by (simp add: sync_def)
next
  case False
  show ?thesis
  proof (cases "deploying w")
    case True
    with assms False show ?thesis
      by (auto simp: sync_busy exclusive_def in_flight_def)
  next
    case idle: False
    from assms(2) False idle obtain fl where fl: "generateConfigFlags e = Inr fl"
      by (cases "generateConfigFlags e")
         (auto simp: sync_def maybeDeploy_def deploy_def promiseThemekitConfig_def new_Set_empty)
    from assms(2) have "w' = w\<lparr>filesToDeploy := [], deploying := True,
            themekit := themekit w @
              [\<lparr>command = ''configure'', flags = fl, cwd = paths_theme_dist e\<rparr>],
            deploys := deploys w @
              [\<lparr>cmd = ''upload'', files = new_Set (filesToDeploy w @ fs),
                awaiting = Configure\<rparr>]\<rparr>"
      by (simp add: sync_idle [OF fl idle False])
    with assms(1) idle show ?thesis
      by (simp add: exclusive_def in_flight_def)
  qed
qed

lemma exclusive_settles:
  assumes "exclusive w" and "settles e k settled w = Inr w'"
  shows "exclusive w'"
proof (cases "k < length (deploys w)")
  case False
  with assms show ?thesis by (simp add: settles_def)
next
  case k: True
  show ?thesis
  proof (cases "awaiting (deploys w ! k)")
    case Configure
    from assms(2) k Configure obtain fl where fl: "generateConfigFlags e = Inr fl"
      by (cases "generateConfigFlags e")
         (auto simp: settles_def deploy_configured_def promiseThemekitDeploy_def Let_def)
    from assms(2) have "w' = (catch_error settled w)
          \<lparr>themekit := themekit w @
             [\<lparr>command = ''deploy'',
               flags = fl @ [(''files'', Strs (files (deploys w ! k)))]
                 @ (if cmd (deploys w ! k) = ''upload'' then [(''noDelete'', Bool True)] else [])
                 @ [(''allow-live'', Bool True)],
               cwd = paths_theme_dist e\<rparr>],
           deploys := (deploys w)[k := (deploys w ! k)\<lparr>awaiting := Transfer\<rparr>]\<rparr>"
      by (simp add: settles_Configure [OF fl k Configure])
    then have "length (in_flight w') = length (in_flight w)" and "deploying w' = deploying w"
      using k Configure by (simp_all add: in_flight_def filter_update_same)
    with assms(1) show ?thesis by (simp add: exclusive_def)
  next
    case Transfer
    from assms(2) have "w' = (catch_error settled w)
          \<lparr>deploying := False,
           deploys := (deploys w)
             [k := (deploys w ! k)\<lparr>awaiting := Returned (Fn ''maybeDeploy'')\<rparr>]\<rparr>"
      by (simp add: settles_Transfer [OF k Transfer])
    then have "Suc (length (in_flight w')) = length (in_flight w)" and "\<not> deploying w'"
      using k Transfer by (simp_all add: in_flight_def filter_update_drop)
    with assms(1) show ?thesis by (auto simp: exclusive_def split: if_splits)
  next
    case (Returned v)
    with assms k show ?thesis by (simp add: settles_def)
  next
    case (Threw x)
    with assms k show ?thesis by (simp add: settles_def)
  qed
qed

lemma exclusive_step:
  assumes "exclusive w" and "is_sync_or_settles ev" and "step e w ev = Inr w'"
  shows "exclusive w'"
proof (cases ev)
  case (Sync fs)
  with assms(3) obtain p w0 where s: "sync e fs w = Inr (p, w0)"
    and w': "w' = w0\<lparr>returned := returned w0 @ [p]\<rparr>"
    by (auto simp: called_def split: sum.splits)
  from exclusive_sync [OF assms(1) s] show ?thesis
    by (simp add: w' exclusive_def in_flight_def)
next
  case Replace
  with assms show ?thesis by simp
next
  case Upload
  with assms show ?thesis by simp
next
  case (Settles k settled)
  with assms show ?thesis using exclusive_settles by simp
qed

lemma exclusive_run:
  assumes "exclusive w" and "list_all is_sync_or_settles evs" and "run e w evs = Inr w'"
  shows "exclusive w'"
  using assms
proof (induction evs arbitrary: w)
  case Nil
  then show ?case by simp
next
  case (Cons ev evs)
  then obtain w1 where s: "step e w ev = Inr w1" and r: "run e w1 evs = Inr w'"
    by (auto split: sum.splits)
  from Cons.prems have "exclusive w1"
    using exclusive_step [OF _ _ s] by simp
  with Cons r show ?case by simp
qed

lemma sync_alone_is_exclusive:
  assumes "list_all is_sync_or_settles evs" and "run e start evs = Inr w"
  shows "length (in_flight w) \<le> 1"
proof -
  have "exclusive start"
    by (simp add: exclusive_def in_flight_def start_def)
  from exclusive_run [OF this assms] show ?thesis
    by (simp add: exclusive_def split: if_splits)
qed

text \<open>
  Claim C1 holds for \<^verbatim>\<open>sync\<close> and fails for \<^verbatim>\<open>upload\<close> and \<^verbatim>\<open>replace\<close>,
  which call \<^verbatim>\<open>deploy\<close> without reading \<^verbatim>\<open>deploying\<close>. After
  \<^verbatim>\<open>sync(["a.liquid"])\<close>, a call of \<^verbatim>\<open>upload()\<close> is not rejected: it hands back the
  promise of a second activation, and two deploys are in flight. When the first of them
  completes it clears \<^verbatim>\<open>deploying\<close> although the second is in flight, so a
  \<^verbatim>\<open>sync\<close> that follows begins a third next to it.
\<close>

theorem upload_ignores_deploying:
  "map_sum id returned (run shop start [Sync [''a.liquid''], Upload])
     = Inr [Deploy_promise 0, Deploy_promise 1]
   \<and> map_sum id (map awaiting \<circ> in_flight) (run shop start [Sync [''a.liquid''], Upload])
     = Inr [Configure, Configure]
   \<and> map_sum id deploying
       (run shop start [Sync [''a.liquid''], Upload, Settles 0 None, Settles 0 None])
     = Inr False
   \<and> map_sum id (map awaiting \<circ> in_flight)
       (run shop start [Sync [''a.liquid''], Upload, Settles 0 None, Settles 0 None,
                        Sync [''b.liquid'']])
     = Inr [Configure, Configure]"
  by code_simp

subsection \<open>The lookup of the main theme\<close>

lemma find_main_first:
  assumes "\<forall>u\<in>set pre. u \<noteq> JNull \<and> get_prop u ''role'' \<noteq> Inr (Some (JStr ''main''))"
    and "get_prop t ''role'' = Inr (Some (JStr ''main''))"
  shows "find_main (pre @ t # post) = Inr (Some t)"
  using assms
proof (induction pre)
  case Nil
  then show ?case by simp
next
  case (Cons u pre)
  then have "u \<noteq> JNull" and "get_prop u ''role'' \<noteq> Inr (Some (JStr ''main''))"
    by simp_all
  then obtain r where "get_prop u ''role'' = Inr r" and "r \<noteq> Some (JStr ''main'')"
    by (cases u) auto
  with Cons show ?case by simp
qed

lemma find_main_none:
  assumes "JNull \<notin> set ts"
    and "\<forall>t\<in>set ts. get_prop t ''role'' \<noteq> Inr (Some (JStr ''main''))"
  shows "find_main ts = Inr None"
  using assms
proof (induction ts)
  case Nil
  then show ?case by simp
next
  case (Cons u ts)
  then have "u \<noteq> JNull" and "get_prop u ''role'' \<noteq> Inr (Some (JStr ''main''))"
    by auto
  then obtain r where "get_prop u ''role'' = Inr r" and "r \<noteq> Some (JStr ''main'')"
    by (cases u) auto
  with Cons show ?case by simp
qed

lemma main_theme_has_id:
  "get_prop t ''role'' = Inr (Some (JStr ''main'')) \<Longrightarrow> get_prop t ''id'' \<noteq> Inl x"
  by (cases t) auto

text \<open>
  Claim C4, as stated, fails: the \<^verbatim>\<open>errors\<close> field is looked at first, so a response
  that has a truthy \<^verbatim>\<open>errors\<close> field next to a list of themes with a main theme is
  rejected; and \<^verbatim>\<open>find\<close> reads \<^verbatim>\<open>.role\<close> of each element up to the first main
  one, which throws on an element \<^verbatim>\<open>null\<close>.
\<close>

theorem errors_field_hides_main_theme:
  "on_parsed (JObj [(''errors'', JStr ''invalid token''),
                    (''themes'', JArr [JObj [(''id'', JNum 1), (''role'', JStr ''unpublished'')],
                                       JObj [(''id'', JNum 2), (''role'', JStr ''main'')]])])
     \<noteq> Resolve (Some (JNum 2))
   \<and> on_parsed (JObj [(''themes'', JArr [JNull, JObj [(''id'', JNum 2), (''role'', JStr ''main'')]])])
     \<noteq> Resolve (Some (JNum 2))"
  by (simp add: on_parsed_def)

text \<open>
  Claim C4, amended. For every parsed response whose \<^verbatim>\<open>errors\<close> field is absent or
  falsy and whose \<^verbatim>\<open>themes\<close> field is a sequence with an element of role "main" that
  no \<^verbatim>\<open>null\<close> element and no other element of role "main" precedes, the promise is
  resolved with the \<^verbatim>\<open>id\<close> field of that element (\<^verbatim>\<open>undefined\<close> when it has none).
\<close>

theorem first_main_theme_id:
  assumes "get_prop parsed ''errors'' = Inr errors" and "\<not> truthy errors"
    and "get_prop parsed ''themes'' = Inr (Some (JArr (pre @ t # post)))"
    and "\<forall>u\<in>set pre. u \<noteq> JNull \<and> get_prop u ''role'' \<noteq> Inr (Some (JStr ''main''))"
    and "get_prop t ''role'' = Inr (Some (JStr ''main''))"
  shows "\<exists>v. get_prop t ''id'' = Inr v \<and> on_parsed parsed = Resolve v"
proof -
  obtain v where v: "get_prop t ''id'' = Inr v"
    using main_theme_has_id [OF assms(5)] by (cases "get_prop t ''id''") auto
  have "find_main (pre @ t # post) = Inr (Some t)"
    using assms(4,5) by (rule find_main_first)
  with assms(1-3) v have "on_parsed parsed = Resolve v"
    by (simp add: on_parsed_def)
  with v show ?thesis by simp
qed

theorem first_main_theme_id_witness:
  "on_parsed (JObj [(''themes'', JArr [JObj [(''id'', JNum 1), (''role'', JStr ''unpublished'')],
                                       JObj [(''id'', JNum 2), (''role'', JStr ''main'')]])])
   = Resolve (Some (JNum 2))"
  using first_main_theme_id [of
      "JObj [(''themes'', JArr [JObj [(''id'', JNum 1), (''role'', JStr ''unpublished'')],
                                JObj [(''id'', JNum 2), (''role'', JStr ''main'')]])]"
      None "[JObj [(''id'', JNum 1), (''role'', JStr ''unpublished'')]]"
      "JObj [(''id'', JNum 2), (''role'', JStr ''main'')]" "[]"]
  by simp

text \<open>
  Claim C5, as stated, fails: \<^verbatim>\<open>if (parsed.errors)\<close> asks whether the field is truthy,
  so a response whose \<^verbatim>\<open>errors\<close> field is the empty string (or \<^verbatim>\<open>null\<close>,
  \<^verbatim>\<open>false\<close>, \<^verbatim>\<open>0\<close>) is not rejected for it, and here resolves; and where the
  response is \<^verbatim>\<open>null\<close>, or no theme is the main one and one is \<^verbatim>\<open>null\<close>, a
  \<^verbatim>\<open>TypeError\<close> leaves the callback and the promise is not rejected.
\<close>

theorem falsy_errors_field_passes:
  "on_parsed (JObj [(''errors'', JStr ''''),
                    (''themes'', JArr [JObj [(''id'', JNum 1), (''role'', JStr ''main'')]])])
     = Resolve (Some (JNum 1))
   \<and> on_parsed JNull = Uncaught TypeError
   \<and> on_parsed (JObj [(''themes'', JArr [JNull])]) = Uncaught TypeError"
  by (simp add: on_parsed_def)

text \<open>
  Claim C5, amended. For every parsed response other than \<^verbatim>\<open>null\<close>, in this order:
  when its \<^verbatim>\<open>errors\<close> field is truthy, the promise is rejected with the error whose
  message is "API request to fetch main theme ID failed: " and the serialized field;
  otherwise, when its \<^verbatim>\<open>themes\<close> field is not an array, with the error "Shopify
  response for /admin/themes.json is not an array. " and the serialized response; otherwise,
  when no element of \<^verbatim>\<open>themes\<close> is \<^verbatim>\<open>null\<close> and none has the role "main", with the
  error "No main theme in response. " and the serialized themes.
\<close>

theorem lookup_failures_in_order:
  assumes "get_prop parsed ''errors'' = Inr errors"
    and "get_prop parsed ''themes'' = Inr themes"
  shows "(truthy errors \<longrightarrow>
            on_parsed parsed =
              Reject (Error [Text ''API request to fetch main theme ID failed: \<newline>'',
                             Stringified (the errors)]))
       \<and> (\<not> truthy errors \<and> \<not> isArray themes \<longrightarrow>
            on_parsed parsed =
              Reject (Error [Text ''Shopify response for /admin/themes.json is not an array. '',
                             Stringified parsed]))
       \<and> (\<not> truthy errors \<and> themes = Some (JArr ts) \<and> JNull \<notin> set ts
            \<and> (\<forall>t\<in>set ts. get_prop t ''role'' \<noteq> Inr (Some (JStr ''main''))) \<longrightarrow>
            on_parsed parsed =
              Reject (Error [Text ''No main theme in response. '', Stringified (JArr ts)]))"
proof (intro conjI impI)
  assume "truthy errors"
  with assms show "on_parsed parsed =
      Reject (Error [Text ''API request to fetch main theme ID failed: \<newline>'',
                     Stringified (the errors)])"
    by (simp add: on_parsed_def)
next
  assume "\<not> truthy errors \<and> \<not> isArray themes"
  with assms show "on_parsed parsed =
      Reject (Error [Text ''Shopify response for /admin/themes.json is not an array. '',
                     Stringified parsed])"
    by (simp add: on_parsed_def)
next
  assume a: "\<not> truthy errors \<and> themes = Some (JArr ts) \<and> JNull \<notin> set ts
            \<and> (\<forall>t\<in>set ts. get_prop t ''role'' \<noteq> Inr (Some (JStr ''main'')))"
  then have "find_main ts = Inr None"
    using find_main_none by blast
  with a assms show "on_parsed parsed =
      Reject (Error [Text ''No main theme in response. '', Stringified (JArr ts)])"
    by (simp add: on_parsed_def)
qed

theorem lookup_failures_in_order_witness:
  "on_parsed (JObj [(''errors'', JStr ''invalid token'')]) =
     Reject (Error [Text ''API request to fetch main theme ID failed: \<newline>'',
                    Stringified (JStr ''invalid token'')])
   \<and> on_parsed (JObj [(''themes'', JStr ''not-an-array'')]) =
     Reject (Error [Text ''Shopify response for /admin/themes.json is not an array. '',
                    Stringified (JObj [(''themes'', JStr ''not-an-array'')])])
   \<and> on_parsed (JObj [(''themes'', JArr [JObj [(''id'', JNum 1), (''role'', JStr ''unpublished'')]])]) =
     Reject (Error [Text ''No main theme in response. '',
                    Stringified (JArr [JObj [(''id'', JNum 1), (''role'', JStr ''unpublished'')]])])"
  using lookup_failures_in_order [of "JObj [(''errors'', JStr ''invalid token'')]"
          "Some (JStr ''invalid token'')" None "[]"]
        lookup_failures_in_order [of "JObj [(''themes'', JStr ''not-an-array'')]"
          None "Some (JStr ''not-an-array'')" "[]"]
        lookup_failures_in_order [of
          "JObj [(''themes'', JArr [JObj [(''id'', JNum 1), (''role'', JStr ''unpublished'')]])]"
          None "Some (JArr [JObj [(''id'', JNum 1), (''role'', JStr ''unpublished'')]])"
          "[JObj [(''id'', JNum 1), (''role'', JStr ''unpublished'')]]"]
  by simp

text \<open>
  Claim C7. In the request of every lookup the \<^verbatim>\<open>auth\<close> field is the colon followed by
  the text of the accessor \<^verbatim>\<open>getPasswordValue\<close>, a value in which the environment does
  not occur: with another password the request differs in its headers only. The header
  \<^verbatim>\<open>X-Shopify-Access-Token\<close> is the password that the accessor returns.
\<close>

theorem auth_is_placeholder:
  assumes "fetchMainThemeId JSON_parse e chunks = Inr (rq, out)"
  shows "auth rq = [Text '':'', Function_text ''slateEnv.getPasswordValue'']
       \<and> map_of (headers rq) ''X-Shopify-Access-Token'' = Some (getPasswordValue e)
       \<and> (\<exists>out'. fetchMainThemeId JSON_parse (e\<lparr>getPasswordValue := p\<rparr>) chunks
                     = Inr (rq\<lparr>headers := [(''X-Shopify-Access-Token'', p)]\<rparr>, out'))"
  using assms
  by (auto simp: fetchMainThemeId_def validateEnvValues_def fetch_request_def split: if_splits)

theorem auth_is_placeholder_witness:
  \<open>fetchMainThemeId (map_of [(''{"themes":[]}'', JObj [(''themes'', JArr [])])]) shop
      [''{"themes"'', '':[]}'']
     = Inr (fetch_request shop,
            Reject (Error [Text ''No main theme in response. '', Stringified (JArr [])]))
   \<and> auth (fetch_request shop) = [Text '':'', Function_text ''slateEnv.getPasswordValue'']
   \<and> map_of (headers (fetch_request shop)) ''X-Shopify-Access-Token'' = Some ''shppa_0123''
   \<and> (\<exists>out'. fetchMainThemeId (map_of [(''{"themes":[]}'', JObj [(''themes'', JArr [])])])
                 (shop\<lparr>getPasswordValue := ''other''\<rparr>) [''{"themes"'', '':[]}'']
               = Inr ((fetch_request shop)\<lparr>headers := [(''X-Shopify-Access-Token'', ''other'')]\<rparr>,
                      out'))\<close>
proof -
  have h: \<open>fetchMainThemeId (map_of [(''{"themes":[]}'', JObj [(''themes'', JArr [])])]) shop
      [''{"themes"'', '':[]}'']
     = Inr (fetch_request shop,
            Reject (Error [Text ''No main theme in response. '', Stringified (JArr [])]))\<close>
    by (simp add: fetchMainThemeId_def validateEnvValues_def on_end_def on_parsed_def shop_def)
  have p: "getPasswordValue shop = ''shppa_0123''"
    by (simp add: shop_def)
  show ?thesis
    using auth_is_placeholder [OF h, of "''other''"] h p by simp
qed

text \<open>
  Claim C9. In a valid environment, when \<^verbatim>\<open>JSON.parse\<close> throws on the buffered body,
  the \<^verbatim>\<open>SyntaxError\<close> leaves the callback of \<^verbatim>\<open>end\<close>: neither \<^verbatim>\<open>resolve\<close> nor
  \<^verbatim>\<open>reject\<close> is called.
\<close>

theorem invalid_body_is_uncaught:
  assumes "isValid e" and "JSON_parse (foldl (@) [] chunks) = None"
  shows "fetchMainThemeId JSON_parse e chunks = Inr (fetch_request e, Uncaught SyntaxError)"
  using assms by (simp add: fetchMainThemeId_def validateEnvValues_def on_end_def)

theorem invalid_body_is_uncaught_witness:
  \<open>isValid shop
   \<and> map_of [(''{"themes":[]}'', JObj [(''themes'', JArr [])])]
        (foldl (@) [] [''<html>'', ''Bad Gateway</html>'']) = None
   \<and> fetchMainThemeId (map_of [(''{"themes":[]}'', JObj [(''themes'', JArr [])])]) shop
        [''<html>'', ''Bad Gateway</html>'']
      = Inr (fetch_request shop, Uncaught SyntaxError)\<close>
  using invalid_body_is_uncaught [of shop
      \<open>map_of [(''{"themes":[]}'', JObj [(''themes'', JArr [])])]\<close>
      "[''<html>'', ''Bad Gateway</html>'']"]
  by (simp add: shop_valid)

end
